theory Spec2Isabelle
  imports Main "HOL-Library.Sublist"
begin

section \<open>The graph model\<close>

text \<open>
  The values an attribute can take in an attribute list: a string, or the boolean
  \<open>True\<close> that \<open>Optional(equals.suppress() + attr, True)\<close> supplies when a
  key is written without a value. A Python \<open>dict\<close> with string keys is a partial map.
\<close>

datatype atom = Str string | Bool bool

type_synonym dict = "string \<rightharpoonup> atom"

datatype error =
  ParseException | KeyError string | IndexError | TraitError string | TypeError string

text \<open>
  Modelled from the spec: the class \<open>Node\<close> of \<open>godot.node\<close> is not among the
  sources. The spec describes it as an identifier (a string) plus an attribute map;
  \<open>Node(ID=i, **opts)\<close> stores both.
\<close>

record node =
  ID :: string
  node_traits :: dict

definition Node :: "string \<Rightarrow> dict \<Rightarrow> node" where
  "Node i opts = \<lparr>ID = i, node_traits = opts\<rparr>"

text \<open>
  \<open>Edge\<close> of \<open>godot/edge.py\<close>: the traits \<open>tail_node\<close> and \<open>head_node\<close>
  (\<open>Instance(Node, allow_none=False)\<close>), \<open>conn\<close> (\<open>Enum("->", "--")\<close>), and the
  Graphviz attribute traits, \<open>tailport\<close> and \<open>headport\<close> among them, which are
  kept as one map from trait name to value.
\<close>

record edge =
  tail_node :: node
  head_node :: node
  conn :: string
  edge_traits :: dict

text \<open>The first two arguments of \<open>Edge.__init__\<close>: a \<open>Node\<close> instance or anything else.\<close>

datatype node_or_ID = IsNode node | NotNode atom

text \<open>Python's \<open>str\<close> and truth value of the values modelled here.\<close>

fun str :: "atom \<Rightarrow> string" where
  "str (Str s) = s"
| "str (Bool b) = (if b then ''True'' else ''False'')"

fun truthy :: "atom \<Rightarrow> bool" where
  "truthy (Str s) = (s \<noteq> [])"
| "truthy (Bool b) = b"

text \<open>
  \<open>super(Edge, self).__init__(**traits)\<close> assigns every keyword to the trait of that
  name, after \<open>__init__\<close> has set \<open>tail_node\<close>, \<open>head_node\<close> and \<open>conn\<close>. The
  declared types of these three traits are checked on assignment: the values modelled
  here are never \<open>Node\<close> instances, and \<open>conn\<close> admits its two strings only. The
  checks of the Graphviz attribute traits are not modelled.
\<close>

definition HasTraits_init :: "edge \<Rightarrow> dict \<Rightarrow> error + edge" where
  "HasTraits_init e traits =
     (if traits ''tail_node'' \<noteq> None then Inl (TraitError ''tail_node'')
      else if traits ''head_node'' \<noteq> None then Inl (TraitError ''head_node'')
      else case traits ''conn'' of
             None \<Rightarrow> Inr (e\<lparr>edge_traits := traits\<rparr>)
           | Some v \<Rightarrow>
               if v = Str ''->'' \<or> v = Str ''--''
               then Inr (e\<lparr>conn := str v, edge_traits := traits(''conn'' := None)\<rparr>)
               else Inl (TraitError ''conn''))"

text \<open>
  \<open>Edge.__init__(self, tailnode_or_ID, headnode_or_ID, directed=False, **traits)\<close>.
  The argument \<open>directed\<close> is \<open>None\<close> when the call leaves it out.
\<close>

definition Edge_init :: "node_or_ID \<Rightarrow> node_or_ID \<Rightarrow> bool option \<Rightarrow> dict \<Rightarrow> error + edge" where
  "Edge_init tailnode_or_ID headnode_or_ID directed_arg traits =
     (let directed = (case directed_arg of None \<Rightarrow> False | Some d \<Rightarrow> d);
          tail = (case tailnode_or_ID of
                    NotNode t \<Rightarrow> Node (str t) Map.empty
                  | IsNode n \<Rightarrow> n);
          head = (case headnode_or_ID of
                    NotNode h \<Rightarrow> Node (str h) Map.empty
                  | IsNode n \<Rightarrow> n);
          c = (if directed then ''->'' else ''--'')
      in HasTraits_init
           \<lparr>tail_node = tail, head_node = head, conn = c, edge_traits = Map.empty\<rparr> traits)"

text \<open>
  The call \<open>Edge(tail_node, head_node, **opts)\<close> of the parser: a key \<open>directed\<close> of
  \<open>opts\<close> binds the parameter of that name, every other key is a trait. A key that
  names a parameter which the call has bound already is a \<open>TypeError\<close>.
\<close>

definition Edge_kwargs :: "node \<Rightarrow> node \<Rightarrow> dict \<Rightarrow> error + edge" where
  "Edge_kwargs t h opts =
     (if opts ''self'' \<noteq> None then Inl (TypeError ''self'')
      else if opts ''tailnode_or_ID'' \<noteq> None then Inl (TypeError ''tailnode_or_ID'')
      else if opts ''headnode_or_ID'' \<noteq> None then Inl (TypeError ''headnode_or_ID'')
      else Edge_init (IsNode t) (IsNode h) (map_option truthy (opts ''directed''))
             (opts(''directed'' := None)))"

text \<open>
  What a scalar entry of a container holds: the value of an assignment, the attribute
  dictionary of a default-attribute statement, or the token list that
  \<open>_proc_default_attr_stmt\<close> returns under the name \<open>unknown\<close>.
\<close>

datatype setting = Value atom | Attrs dict | Unknown string "dict option"

text \<open>
  Modelled from the spec: \<open>godot.graph.Graph\<close>, \<open>godot.subgraph.Subgraph\<close> and
  \<open>godot.cluster.Cluster\<close> are not among the sources. The spec gives all three an
  identifier, four ordered collections and the scalar attributes, and the graph the
  flags \<open>strict\<close> and \<open>directed\<close>. \<open>Subgraph\<close> and \<open>Cluster\<close> are taken as
  classes of which neither is a subclass of the other. \<open>setattr\<close> puts the newest
  entry first.
\<close>

datatype contents = Contents
  (graph_ID: string)
  (nodes: "node list")
  (edges: "edge list")
  (subgraphs: "contents list")
  (clusters: "contents list")
  (attributes: "(string \<times> setting) list")

record graph =
  strict :: bool
  directed :: bool
  body :: contents

text \<open>The values that a statement's parse action leaves in the statement list.\<close>

datatype element =
    NodeE node
  | EdgeE edge
  | SubgraphE contents
  | ClusterE contents
  | TupleE string setting

text \<open>
  The token of \<open>node_id\<close> after \<open>_proc_node_id\<close>: the identifier alone, or the
  tuple \<open>(ID, port)\<close>.
\<close>

datatype node_id = Plain string | WithPort string string


section \<open>Parse actions\<close>

text \<open>
  Modelled from the spec: \<open>windows\<close> of \<open>parsing_util\<close> is not among the sources.
  Called with \<open>length=2, overlap=1, padding=False\<close> it yields the pairs of
  neighbours, left to right, which is the chaining the spec describes.
\<close>

fun windows :: "'a list \<Rightarrow> ('a \<times> 'a) list" where
  "windows (x # y # zs) = (x, y) # windows (y # zs)"
| "windows zs = []"

text \<open>\<open>_proc_node_id\<close>: a tuple if more than one token exists.\<close>

definition proc_node_id :: "string \<Rightarrow> string option \<Rightarrow> node_id" where
  "proc_node_id i port = (case port of None \<Rightarrow> Plain i | Some p \<Rightarrow> WithPort i p)"

text \<open>
  Modelled from the spec: \<open>nsplit\<close> of \<open>parsing_util\<close> is not among the sources;
  \<open>nsplit(tokens, 2)\<close> regroups the flat tokens \<open>name, value, name, value, ...\<close>
  into pairs, which the grammar functions below hand over directly.
  \<open>_proc_attr_list\<close> makes a dictionary of the pairs, a later pair overwriting an
  earlier one with the same key.
\<close>

definition proc_attr_list :: "(string \<times> atom) list \<Rightarrow> dict" where
  "proc_attr_list pairs = fold (\<lambda>(k, v) d. d(k \<mapsto> v)) pairs Map.empty"

text \<open>
  \<open>_proc_attr_list_combine\<close>: the dictionaries of the bracket groups are merged
  into the first one with \<open>update\<close>; no token stays no token.
\<close>

definition proc_attr_list_combine :: "dict list \<Rightarrow> dict option" where
  "proc_attr_list_combine tokens =
     (case tokens of
        [] \<Rightarrow> None
      | first_dict # ds \<Rightarrow> Some (fold (\<lambda>d acc. acc ++ d) tokens first_dict))"

text \<open>
  \<open>_proc_node_stmt\<close>. The name \<open>ID\<close> is read as the token of \<open>node_id\<close>; with
  two tokens the second one is the attribute dictionary.
\<close>

definition proc_node_stmt :: "node_id \<Rightarrow> dict option \<Rightarrow> element" where
  "proc_node_stmt tok attrlist =
     (let node_id = (case tok of WithPort i port \<Rightarrow> i | Plain i \<Rightarrow> i)
      in case attrlist of
           Some opts \<Rightarrow> NodeE (Node node_id opts)
         | None \<Rightarrow> NodeE (Node node_id Map.empty))"

text \<open>
  The loop of \<open>_proc_edge_stmt\<close> over the windows. The dictionary \<open>opts\<close> is one
  object, assigned to in place, so the loop passes it on to the next window.
\<close>

fun edge_windows :: "dict \<Rightarrow> (node_id \<times> node_id) list \<Rightarrow> error + edge list" where
  "edge_windows opts [] = Inr []"
| "edge_windows opts ((src, dst) # ws) =
     (let opts1 = (case src of WithPort i p \<Rightarrow> opts(''tailport'' \<mapsto> Str p) | Plain i \<Rightarrow> opts);
          src1 = (case src of WithPort i p \<Rightarrow> i | Plain i \<Rightarrow> i);
          opts2 = (case dst of WithPort i p \<Rightarrow> opts1(''headport'' \<mapsto> Str p) | Plain i \<Rightarrow> opts1);
          dst1 = (case dst of WithPort i p \<Rightarrow> i | Plain i \<Rightarrow> i);
          tail_node = Node src1 Map.empty;
          head_node = Node dst1 Map.empty
      in case Edge_kwargs tail_node head_node opts2 of
           Inl err \<Rightarrow> Inl err
         | Inr e \<Rightarrow>
             (case edge_windows opts2 ws of
                Inl err \<Rightarrow> Inl err
              | Inr edgelist \<Rightarrow> Inr (e # edgelist)))"

text \<open>
  \<open>_proc_edge_stmt\<close>: the tokens are the endpoints and, when the statement has a
  non-empty attribute list, the dictionary as last token. \<open>tokens[-1]\<close> of no token
  at all raises.
\<close>

definition proc_edge_stmt :: "node_id list \<Rightarrow> dict option \<Rightarrow> error + edge list" where
  "proc_edge_stmt tokens attrlist =
     (case attrlist of
        Some opts \<Rightarrow> edge_windows opts (windows tokens)
      | None \<Rightarrow>
          if tokens = [] then Inl IndexError
          else edge_windows Map.empty (windows tokens))"

text \<open>
  \<open>_proc_default_attr_stmt\<close>. With one token \<open>gtype\<close> is bound to the token
  list itself, which equals none of the three strings.
\<close>

definition proc_default_attr_stmt :: "string \<Rightarrow> dict option \<Rightarrow> element" where
  "proc_default_attr_stmt keyword attrlist =
     (case attrlist of
        None \<Rightarrow> TupleE ''unknown'' (Unknown keyword None)
      | Some attr \<Rightarrow>
          if keyword = ''node'' then TupleE ''set_def_node_attr'' (Attrs attr)
          else if keyword = ''edge'' then TupleE ''set_def_edge_attr'' (Attrs attr)
          else if keyword = ''graph'' then TupleE ''set_def_graph_attr'' (Attrs attr)
          else TupleE ''unknown'' (Unknown keyword (Some attr)))"

text \<open>\<open>_populate_graph\<close>: the dispatch on the kind of each element, in order.\<close>

fun populate_graph :: "contents \<Rightarrow> element list \<Rightarrow> contents" where
  "populate_graph g [] = g"
| "populate_graph (Contents i ns es ss cs as) (element # elements) =
     populate_graph
       (case element of
          SubgraphE sub \<Rightarrow> Contents i ns es (ss @ [sub]) cs as
        | ClusterE cl \<Rightarrow> Contents i ns es ss (cs @ [cl]) as
        | NodeE n \<Rightarrow> Contents i (ns @ [n]) es ss cs as
        | EdgeE e \<Rightarrow> Contents i ns (es @ [e]) ss cs as
        | TupleE k v \<Rightarrow> Contents i ns es ss cs ((k, v) # as))
       elements"

text \<open>Python's \<open>lower\<close> and \<open>upper\<close> of a string, on the ASCII letters.\<close>

definition lower_chars :: string where
  "lower_chars = ''abcdefghijklmnopqrstuvwxyz''"

definition upper_chars :: string where
  "upper_chars = ''ABCDEFGHIJKLMNOPQRSTUVWXYZ''"

definition lower :: "string \<Rightarrow> string" where
  "lower s = map (\<lambda>c. case map_of (zip upper_chars lower_chars) c of
                          Some l \<Rightarrow> l | None \<Rightarrow> c) s"

definition upper :: "string \<Rightarrow> string" where
  "upper s = map (\<lambda>c. case map_of (zip lower_chars upper_chars) c of
                          Some u \<Rightarrow> u | None \<Rightarrow> c) s"

text \<open>
  \<open>_proc_subgraph_stmt\<close>: clusters are just like subgraphs, but with a
  \<open>cluster\<close> ID prefix.
\<close>

definition empty_contents :: "string \<Rightarrow> contents" where
  "empty_contents i = Contents i [] [] [] [] []"

definition proc_subgraph_stmt :: "string \<Rightarrow> element list \<Rightarrow> element" where
  "proc_subgraph_stmt i subgraph_stmt =
     (if lower (take 7 i) = ''cluster''
      then ClusterE (populate_graph (empty_contents i) subgraph_stmt)
      else SubgraphE (populate_graph (empty_contents i) subgraph_stmt))"

text \<open>
  \<open>_proc_strict\<close> and \<open>_proc_directed\<close> coerce the keyword tokens of the
  header to booleans: whether the token \<open>strict\<close> is there, and whether the
  token named \<open>directed\<close> is \<open>digraph\<close>.
\<close>

definition proc_strict :: "string option \<Rightarrow> bool" where
  "proc_strict tokens = (tokens \<noteq> None)"

definition proc_directed :: "string \<Rightarrow> bool" where
  "proc_directed tok = (tok = ''digraph'')"

text \<open>
  \<open>_proc_main_graph\<close>: \<open>tokens["ID"]\<close> raises when the header has no identifier,
  since \<open>Optional(ID)\<close> has no default value.
\<close>

definition proc_main_graph :: "bool \<Rightarrow> bool \<Rightarrow> string option \<Rightarrow> element list \<Rightarrow> error + graph" where
  "proc_main_graph strict_tok directed_tok ID_tok stmt_list =
     (case ID_tok of
        None \<Rightarrow> Inl (KeyError ''ID'')
      | Some i \<Rightarrow>
          Inr \<lparr>strict = strict_tok, directed = directed_tok,
               body = populate_graph (empty_contents i) stmt_list\<rparr>)"


section \<open>The grammar\<close>

text \<open>
  A grammar element is a function from the rest of the input to its result and the
  input left over, or to nothing where pyparsing raises \<open>ParseException\<close>.
  \<open>parsing_util\<close> is not among the sources, so the attribute tables \<open>all_attr\<close> and
  \<open>graph_attr\<close> and the element \<open>quoted_string\<close> are parameters: an attribute is
  its results name and the element that recognises its value. \<open>html_text\<close> is built by
  pyparsing's \<open>nestedExpr\<close> and is a parameter as well. \<open>quoted_string\<close> and
  \<open>html_text\<close> are applied where the token starts, the value elements skip white
  space themselves.

  Of pyparsing the following is used. The value that a parse action returns replaces
  the tokens of its element, a list standing for its items and any other value for one
  token. A results name is bound to the tokens of its element when the element matches;
  \<open>Optional\<close> with a default value binds the default when its element does not
  match, and without one binds nothing. \<open>e1 | e2\<close> takes the first alternative that
  matches, \<open>Or\<close> the one that matches most input, and neither \<open>Optional\<close> nor
  the repetitions give input back once they have matched. Before a token, white space
  and the ignorable expressions are skipped.
\<close>

type_synonym 'a element_parser = "string \<Rightarrow> ('a \<times> string) option"

record parsing_util =
  all_attr :: "(string \<times> atom element_parser) list"
  graph_attr :: "(string \<times> atom element_parser) list"
  quoted_string :: "string element_parser"
  html_text :: "string element_parser"

datatype 'a result = Match 'a string | NoMatch | Raise error

subsection \<open>White space and comments\<close>

definition white :: "char \<Rightarrow> bool" where
  "white c = (c = CHR '' '' \<or> c = CHR 0x0A \<or> c = CHR 0x09 \<or> c = CHR 0x0D)"

text \<open>\<open>restOfLine\<close>, and the line comment, which a backslash continues over a newline.\<close>

fun restOfLine :: "string \<Rightarrow> string" where
  "restOfLine [] = []"
| "restOfLine (c # cs) = (if c = CHR 0x0A then c # cs else restOfLine cs)"

fun line_comment :: "string \<Rightarrow> string" where
  "line_comment [] = []"
| "line_comment [c] = (if c = CHR 0x0A then [c] else [])"
| "line_comment (c # d # cs) =
     (if c = CHR 0x5C \<and> d = CHR 0x0A then line_comment cs
      else if c = CHR 0x0A then c # d # cs
      else line_comment (d # cs))"

fun block_comment :: "string \<Rightarrow> string option" where
  "block_comment [] = None"
| "block_comment [c] = None"
| "block_comment (c # d # cs) =
     (if c = CHR ''*'' \<and> d = CHR ''/'' then Some cs else block_comment (d # cs))"

text \<open>
  One match of an expression given to \<open>graphparser.ignore\<close>, after white space:
  \<open>"#" + restOfLine\<close> or \<open>cppStyleComment\<close>.
\<close>

fun ignorable :: "string \<Rightarrow> string option" where
  "ignorable [] = None"
| "ignorable (c # cs) =
     (if white c then ignorable cs
      else if c = CHR ''#'' then Some (restOfLine cs)
      else if c = CHR ''/'' then
        (case cs of
           [] \<Rightarrow> None
         | d # ds \<Rightarrow>
             if d = CHR ''/'' then Some (line_comment ds)
             else if d = CHR ''*'' then block_comment ds
             else None)
      else None)"

text \<open>
  \<open>_skipIgnorables\<close> repeats while an ignorable expression matches; \<open>preParse\<close>
  then skips white space.
\<close>

function skipIgnorables :: "string \<Rightarrow> string" where
  "skipIgnorables s =
     (case ignorable s of
        None \<Rightarrow> s
      | Some r \<Rightarrow> if length r < length s then skipIgnorables r else r)"
  by pat_completeness auto
termination
  by (relation "measure length") auto

definition preParse :: "string \<Rightarrow> string" where
  "preParse s = dropWhile white (skipIgnorables s)"

subsection \<open>Tokens\<close>

text \<open>\<open>Literal\<close> and \<open>CaselessLiteral\<close> at the current position.\<close>

definition Literal_at :: "string \<Rightarrow> string element_parser" where
  "Literal_at m s = (if take (length m) s = m then Some (m, drop (length m) s) else None)"

definition Literal :: "string \<Rightarrow> string element_parser" where
  "Literal m s = Literal_at m (preParse s)"

definition CaselessLiteral :: "string \<Rightarrow> string element_parser" where
  "CaselessLiteral m s =
     (let t = preParse s
      in if upper (take (length m) t) = upper m then Some (m, drop (length m) t) else None)"

text \<open>\<open>Word(alphanums + "_")\<close> at the current position.\<close>

definition identifier_char :: "char \<Rightarrow> bool" where
  "identifier_char c = (c \<in> set (lower_chars @ upper_chars @ ''0123456789'' @ ''_''))"

definition identifier_at :: "string element_parser" where
  "identifier_at s =
     (if takeWhile identifier_char s = [] then None
      else Some (takeWhile identifier_char s, dropWhile identifier_char s))"

text \<open>
  \<open>OneOrMore(CharsNotIn(_noncomma))\<close>: \<open>_noncomma\<close> is every printable character
  that is neither white space nor a comma, so the run consists of everything else.
\<close>

definition noncomma :: "char \<Rightarrow> bool" where
  "noncomma c = (c \<in> set (lower_chars @ upper_chars @ ''0123456789'' @
     [CHR 0x21, CHR 0x22, CHR 0x23, CHR 0x24, CHR 0x25, CHR 0x26, CHR 0x27, CHR 0x28,
      CHR 0x29, CHR 0x2A, CHR 0x2B, CHR 0x2D, CHR 0x2E, CHR 0x2F, CHR 0x3A, CHR 0x3B,
      CHR 0x3C, CHR 0x3D, CHR 0x3E, CHR 0x3F, CHR 0x40, CHR 0x5B, CHR 0x5C, CHR 0x5D,
      CHR 0x5E, CHR 0x5F, CHR 0x60, CHR 0x7B, CHR 0x7C, CHR 0x7D, CHR 0x7E]))"

definition alphastring_at :: "string element_parser" where
  "alphastring_at s =
     (if takeWhile (\<lambda>c. \<not> noncomma c) s = [] then None
      else Some (takeWhile (\<lambda>c. \<not> noncomma c) s, dropWhile (\<lambda>c. \<not> noncomma c) s))"

text \<open>\<open>ID = identifier | html_text | quoted_string | alphastring_\<close>.\<close>

definition ID_at :: "parsing_util \<Rightarrow> string element_parser" where
  "ID_at pu s =
     (case identifier_at s of
        Some r \<Rightarrow> Some r
      | None \<Rightarrow>
          (case html_text pu s of
             Some r \<Rightarrow> Some r
           | None \<Rightarrow>
               (case quoted_string pu s of
                  Some r \<Rightarrow> Some r
                | None \<Rightarrow> alphastring_at s)))"

definition ID_tok :: "parsing_util \<Rightarrow> string element_parser" where
  "ID_tok pu s = ID_at pu (preParse s)"


subsection \<open>Repetition and alternatives\<close>

text \<open>
  \<open>OneOrMore\<close>: the element once, then again for as long as it matches. The
  repetition goes on only while input is consumed, which every element of this
  grammar does when it matches.
\<close>

function OneOrMore :: "'a element_parser \<Rightarrow> 'a list element_parser" where
  "OneOrMore p s =
     (case p s of
        None \<Rightarrow> None
      | Some (x, r) \<Rightarrow>
          if length r < length s then
            (case OneOrMore p r of
               None \<Rightarrow> Some ([x], r)
             | Some (xs, r') \<Rightarrow> Some (x # xs, r'))
          else Some ([x], r))"
  by pat_completeness auto
termination
  by (relation "measure (\<lambda>(p, s). length s)") auto

text \<open>
  \<open>Or\<close>: of the alternatives that match, the one that consumes most; the first of
  them when several consume the same.
\<close>

fun longest :: "('a \<times> string) option list \<Rightarrow> ('a \<times> string) option" where
  "longest [] = None"
| "longest (None # rs) = longest rs"
| "longest (Some (x, r) # rs) =
     (case longest rs of
        None \<Rightarrow> Some (x, r)
      | Some (y, r') \<Rightarrow> if length r' < length r then Some (y, r') else Some (x, r))"

definition Or :: "'a element_parser list \<Rightarrow> 'a element_parser" where
  "Or alternatives s = longest (map (\<lambda>p. p s) alternatives)"

text \<open>\<open>Optional(e.suppress())\<close> of a literal: the input after it, or the input as it is.\<close>

definition skip_optional :: "string \<Rightarrow> string \<Rightarrow> string" where
  "skip_optional m s = (case Literal m s of None \<Rightarrow> s | Some (x, r) \<Rightarrow> r)"

subsection \<open>Ports and node identifiers\<close>

text \<open>
  \<open>port\<close> is a \<open>Combine\<close>: its parts must follow each other with nothing between
  them, and the token is the text of the parts joined. The \<open>Combine\<close> itself skips
  ignorable expressions but no white space. The punctuation elements \<open>colon\<close>,
  \<open>at\<close>, \<open>lparen\<close>, \<open>comma\<close>, \<open>rparen\<close>, \<open>equals\<close>, \<open>semi\<close>, \<open>lbrack\<close>,
  \<open>rbrack\<close>, \<open>lbrace\<close> and \<open>rbrace\<close> of \<open>parsing_util\<close> are taken to be the
  literals their names say.
\<close>

definition port_angle :: "parsing_util \<Rightarrow> string element_parser" where
  "port_angle pu s =
     (case Literal_at ''@'' s of
        None \<Rightarrow> None
      | Some (a, s1) \<Rightarrow>
          (case ID_at pu s1 of None \<Rightarrow> None | Some (i, s2) \<Rightarrow> Some (a @ i, s2)))"

definition colon_ID :: "parsing_util \<Rightarrow> string element_parser" where
  "colon_ID pu s =
     (case Literal_at '':'' s of
        None \<Rightarrow> None
      | Some (c, s1) \<Rightarrow>
          (case ID_at pu s1 of None \<Rightarrow> None | Some (i, s2) \<Rightarrow> Some (c @ i, s2)))"

definition colon_point :: "parsing_util \<Rightarrow> string element_parser" where
  "colon_point pu s =
     (case Literal_at '':'' s of
        None \<Rightarrow> None
      | Some (c, s1) \<Rightarrow>
     (case Literal_at ''('' s1 of
        None \<Rightarrow> None
      | Some (l, s2) \<Rightarrow>
     (case ID_at pu s2 of
        None \<Rightarrow> None
      | Some (x, s3) \<Rightarrow>
     (case Literal_at '','' s3 of
        None \<Rightarrow> None
      | Some (m, s4) \<Rightarrow>
     (case ID_at pu s4 of
        None \<Rightarrow> None
      | Some (y, s5) \<Rightarrow>
     (case Literal_at '')'' s5 of
        None \<Rightarrow> None
      | Some (r, s6) \<Rightarrow> Some (c @ l @ x @ m @ y @ r, s6)))))))"

definition port_location :: "parsing_util \<Rightarrow> string element_parser" where
  "port_location pu s =
     (case OneOrMore (colon_ID pu) s of
        Some (xs, r) \<Rightarrow> Some (concat xs, r)
      | None \<Rightarrow> colon_point pu s)"

definition port :: "parsing_util \<Rightarrow> string element_parser" where
  "port pu s =
     (let s0 = skipIgnorables s
      in case port_location pu s0 of
           Some (l, s1) \<Rightarrow>
             (case port_angle pu s1 of
                Some (a, s2) \<Rightarrow> Some (l @ a, s2)
              | None \<Rightarrow> Some (l, s1))
         | None \<Rightarrow>
             (case port_angle pu s0 of
                Some (a, s1) \<Rightarrow>
                  (case port_location pu s1 of
                     Some (l, s2) \<Rightarrow> Some (a @ l, s2)
                   | None \<Rightarrow> Some (a, s1))
              | None \<Rightarrow> None))"

text \<open>\<open>node_id = ID + Optional(port)\<close>, with \<open>_proc_node_id\<close>.\<close>

definition node_id :: "parsing_util \<Rightarrow> node_id element_parser" where
  "node_id pu s =
     (case ID_tok pu s of
        None \<Rightarrow> None
      | Some (i, s1) \<Rightarrow>
          (case port pu s1 of
             Some (p, s2) \<Rightarrow> Some (proc_node_id i (Some p), s2)
           | None \<Rightarrow> Some (proc_node_id i None, s1)))"

subsection \<open>Attribute lists\<close>

text \<open>
  One alternative of \<open>a_list\<close>, for the attribute \<open>attr\<close> of \<open>all_attr\<close>:
  \<open>CaselessLiteral(attr.resultsName) + Optional(equals.suppress() + attr, True) +
  Optional(comma.suppress())\<close>.
\<close>

definition a_list_item :: "string \<times> atom element_parser \<Rightarrow> (string \<times> atom) element_parser" where
  "a_list_item attr s =
     (case CaselessLiteral (fst attr) s of
        None \<Rightarrow> None
      | Some (name, s1) \<Rightarrow>
          (let valued = (case Literal ''='' s1 of
                           None \<Rightarrow> None
                         | Some (e, s2) \<Rightarrow> snd attr s2)
           in case valued of
                Some (v, s3) \<Rightarrow> Some ((name, v), skip_optional '','' s3)
              | None \<Rightarrow> Some ((name, Bool True), skip_optional '','' s1)))"

definition a_list :: "parsing_util \<Rightarrow> dict element_parser" where
  "a_list pu s =
     (case OneOrMore (Or (map a_list_item (all_attr pu))) s of
        None \<Rightarrow> None
      | Some (pairs, r) \<Rightarrow> Some (proc_attr_list pairs, r))"

text \<open>One bracket group: \<open>lbrack.suppress() + Optional(a_list) + rbrack.suppress()\<close>.\<close>

definition bracket_group :: "parsing_util \<Rightarrow> dict list element_parser" where
  "bracket_group pu s =
     (case Literal ''['' s of
        None \<Rightarrow> None
      | Some (l, s1) \<Rightarrow>
          (case a_list pu s1 of
             Some (d, s2) \<Rightarrow>
               (case Literal '']'' s2 of None \<Rightarrow> None | Some (r, s3) \<Rightarrow> Some ([d], s3))
           | None \<Rightarrow>
               (case Literal '']'' s1 of None \<Rightarrow> None | Some (r, s3) \<Rightarrow> Some ([], s3))))"

definition attr_list :: "parsing_util \<Rightarrow> dict option element_parser" where
  "attr_list pu s =
     (case OneOrMore (bracket_group pu) s of
        None \<Rightarrow> None
      | Some (groups, r) \<Rightarrow> Some (proc_attr_list_combine (concat groups), r))"

text \<open>\<open>Optional(attr_list)\<close>.\<close>

definition optional_attr_list :: "parsing_util \<Rightarrow> string \<Rightarrow> dict option \<times> string" where
  "optional_attr_list pu s = (case attr_list pu s of None \<Rightarrow> (None, s) | Some r \<Rightarrow> r)"


subsection \<open>Statements\<close>

text \<open>\<open>edgeop = Suppress(Literal("--") | Literal("->"))\<close>.\<close>

definition edgeop :: "string element_parser" where
  "edgeop s = (case Literal ''--'' s of Some r \<Rightarrow> Some r | None \<Rightarrow> Literal ''->'' s)"

text \<open>One repetition of \<open>edgeRHS = OneOrMore(edgeop + edge_point)\<close>.\<close>

definition edgeop_point :: "parsing_util \<Rightarrow> node_id element_parser" where
  "edgeop_point pu s = (case edgeop s of None \<Rightarrow> None | Some (op, r) \<Rightarrow> node_id pu r)"

text \<open>
  \<open>edge_stmt = edge_point + edgeRHS + Optional(attr_list)\<close>, with
  \<open>_proc_edge_stmt\<close>. An exception of the action that is no \<open>ParseException\<close>
  is not caught by the alternatives around it.
\<close>

definition edge_stmt :: "parsing_util \<Rightarrow> string \<Rightarrow> element list result" where
  "edge_stmt pu s =
     (case node_id pu s of
        None \<Rightarrow> NoMatch
      | Some (n, s1) \<Rightarrow>
          (case OneOrMore (edgeop_point pu) s1 of
             None \<Rightarrow> NoMatch
           | Some (ns, s2) \<Rightarrow>
               (case optional_attr_list pu s2 of
                  (attrlist, s3) \<Rightarrow>
                    (case proc_edge_stmt (n # ns) attrlist of
                       Inl err \<Rightarrow> Raise err
                     | Inr edgelist \<Rightarrow> Match (map EdgeE edgelist) s3))))"

text \<open>\<open>node_stmt = node_id + Optional(attr_list) + Optional(semi.suppress())\<close>.\<close>

definition node_stmt :: "parsing_util \<Rightarrow> element element_parser" where
  "node_stmt pu s =
     (case node_id pu s of
        None \<Rightarrow> None
      | Some (n, s1) \<Rightarrow>
          (case optional_attr_list pu s1 of
             (attrlist, s2) \<Rightarrow> Some (proc_node_stmt n attrlist, skip_optional '';'' s2)))"

text \<open>\<open>attr_stmt = (graph_ | node_ | edge_) + attr_list\<close>.\<close>

definition attr_keyword :: "string element_parser" where
  "attr_keyword s =
     (case CaselessLiteral ''graph'' s of
        Some r \<Rightarrow> Some r
      | None \<Rightarrow>
          (case CaselessLiteral ''node'' s of
             Some r \<Rightarrow> Some r
           | None \<Rightarrow> CaselessLiteral ''edge'' s))"

definition attr_stmt :: "parsing_util \<Rightarrow> element element_parser" where
  "attr_stmt pu s =
     (case attr_keyword s of
        None \<Rightarrow> None
      | Some (keyword, s1) \<Rightarrow>
          (case attr_list pu s1 of
             None \<Rightarrow> None
           | Some (attrlist, s2) \<Rightarrow> Some (proc_default_attr_stmt keyword attrlist, s2)))"

text \<open>
  \<open>assignment\<close>: for an attribute of \<open>graph_attr\<close>,
  \<open>CaselessLiteral(attr.resultsName) + Suppress(equals) + attr\<close>; the action
  \<open>_proc_attr_assignment\<close> returns the pair.
\<close>

definition assignment_item :: "string \<times> atom element_parser \<Rightarrow> element element_parser" where
  "assignment_item attr s =
     (case CaselessLiteral (fst attr) s of
        None \<Rightarrow> None
      | Some (name, s1) \<Rightarrow>
          (case Literal ''='' s1 of
             None \<Rightarrow> None
           | Some (e, s2) \<Rightarrow>
               (case snd attr s2 of
                  None \<Rightarrow> None
                | Some (v, s3) \<Rightarrow> Some (TupleE name (Value v), s3))))"

definition assignment :: "parsing_util \<Rightarrow> element element_parser" where
  "assignment pu = Or (map assignment_item (graph_attr pu))"

text \<open>
  The start of \<open>subgraph\<close>, up to the opening brace:
  \<open>Suppress(subgraph_) + Optional(ID, "")\<close> and the \<open>Suppress(lbrace)\<close> of
  \<open>graph_stmt\<close>.
\<close>

definition subgraph_head :: "parsing_util \<Rightarrow> string element_parser" where
  "subgraph_head pu s =
     (case CaselessLiteral ''subgraph'' s of
        None \<Rightarrow> None
      | Some (k, s1) \<Rightarrow>
          (case (case ID_tok pu s1 of None \<Rightarrow> ([], s1) | Some r \<Rightarrow> r) of
             (i, s2) \<Rightarrow>
               (case Literal ''{'' s2 of None \<Rightarrow> None | Some (l, s3) \<Rightarrow> Some (i, s3))))"

text \<open>
  \<open>stmt_list = OneOrMore(stmt + Optional(semi.suppress()))\<close>,
  \<open>stmt = assignment | edge_stmt | attr_stmt | subgraph | node_stmt\<close> and
  \<open>subgraph = Suppress(subgraph_) + Optional(ID, "") + graph_stmt\<close> with
  \<open>graph_stmt = Suppress(lbrace) + Optional(stmt_list) + Suppress(rbrace) +
  Optional(semi.suppress())\<close> and the action \<open>_proc_subgraph_stmt\<close>. The
  alternatives of \<open>stmt\<close> are tried in this order and the first that matches is
  taken.
\<close>

function stmt_list :: "parsing_util \<Rightarrow> string \<Rightarrow> element list result"
  and stmt :: "parsing_util \<Rightarrow> string \<Rightarrow> element list result"
  and subgraph :: "parsing_util \<Rightarrow> string \<Rightarrow> element list result"
where
  "stmt_list pu s =
     (case stmt pu s of
        NoMatch \<Rightarrow> NoMatch
      | Raise err \<Rightarrow> Raise err
      | Match els r \<Rightarrow>
          (if length (skip_optional '';'' r) < length s then
             (case stmt_list pu (skip_optional '';'' r) of
                NoMatch \<Rightarrow> Match els (skip_optional '';'' r)
              | Raise err \<Rightarrow> Raise err
              | Match els' r' \<Rightarrow> Match (els @ els') r')
           else Match els (skip_optional '';'' r)))"
| "stmt pu s =
     (case assignment pu s of
        Some (el, r) \<Rightarrow> Match [el] r
      | None \<Rightarrow>
          (case edge_stmt pu s of
             Match els r \<Rightarrow> Match els r
           | Raise err \<Rightarrow> Raise err
           | NoMatch \<Rightarrow>
               (case attr_stmt pu s of
                  Some (el, r) \<Rightarrow> Match [el] r
                | None \<Rightarrow>
                    (case subgraph pu s of
                       Match els r \<Rightarrow> Match els r
                     | Raise err \<Rightarrow> Raise err
                     | NoMatch \<Rightarrow>
                         (case node_stmt pu s of
                            Some (el, r) \<Rightarrow> Match [el] r
                          | None \<Rightarrow> NoMatch)))))"
| "subgraph pu s =
     (case subgraph_head pu s of
        None \<Rightarrow> NoMatch
      | Some (i, s1) \<Rightarrow>
          (if length s1 < length s then
             (case stmt_list pu s1 of
                Raise err \<Rightarrow> Raise err
              | NoMatch \<Rightarrow>
                  (case Literal ''}'' s1 of
                     None \<Rightarrow> NoMatch
                   | Some (b, s2) \<Rightarrow>
                       Match [proc_subgraph_stmt i []] (skip_optional '';'' s2))
              | Match els s2 \<Rightarrow>
                  (case Literal ''}'' s2 of
                     None \<Rightarrow> NoMatch
                   | Some (b, s3) \<Rightarrow>
                       Match [proc_subgraph_stmt i els] (skip_optional '';'' s3)))
           else NoMatch))"
  by pat_completeness auto
termination
  by (relation "measure (\<lambda>x. case x of
          Inl (pu, s) \<Rightarrow> 3 * length s + 2
        | Inr (Inl (pu, s)) \<Rightarrow> 3 * length s + 1
        | Inr (Inr (pu, s)) \<Rightarrow> 3 * length s)") auto

text \<open>
  \<open>graphparser = strict + directed + Optional(ID) + Suppress(lbrace) +
  Group(Optional(stmt_list)) + Suppress(rbrace)\<close>, with \<open>_proc_strict\<close>,
  \<open>_proc_directed\<close> and \<open>_proc_main_graph\<close>.
\<close>

definition strict_tok :: "string \<Rightarrow> bool \<times> string" where
  "strict_tok s =
     (case CaselessLiteral ''strict'' s of
        None \<Rightarrow> (proc_strict None, s)
      | Some (k, r) \<Rightarrow> (proc_strict (Some k), r))"

definition directed_tok :: "bool element_parser" where
  "directed_tok s =
     (case (case CaselessLiteral ''graph'' s of
              Some r \<Rightarrow> Some r
            | None \<Rightarrow> CaselessLiteral ''digraph'' s) of
        None \<Rightarrow> None
      | Some (k, r) \<Rightarrow> Some (proc_directed k, r))"

definition graphparser :: "parsing_util \<Rightarrow> string \<Rightarrow> graph result" where
  "graphparser pu s =
     (case strict_tok s of
        (st, s1) \<Rightarrow>
          (case directed_tok s1 of
             None \<Rightarrow> NoMatch
           | Some (di, s2) \<Rightarrow>
               (case (case ID_tok pu s2 of None \<Rightarrow> (None, s2) | Some (i, r) \<Rightarrow> (Some i, r)) of
                  (i, s3) \<Rightarrow>
                    (case Literal ''{'' s3 of
                       None \<Rightarrow> NoMatch
                     | Some (l, s4) \<Rightarrow>
                         (case (case stmt_list pu s4 of
                                  NoMatch \<Rightarrow> Match [] s4
                                | res \<Rightarrow> res) of
                            NoMatch \<Rightarrow> NoMatch
                          | Raise err \<Rightarrow> Raise err
                          | Match els s5 \<Rightarrow>
                              (case Literal ''}'' s5 of
                                 None \<Rightarrow> NoMatch
                               | Some (b, s6) \<Rightarrow>
                                   (case proc_main_graph st di i els of
                                      Inl err \<Rightarrow> Raise err
                                    | Inr g \<Rightarrow> Match g s6)))))))"

text \<open>
  \<open>parse_dot_data\<close>: \<open>parseString\<close> matches the grammar at the start of the data and
  does not ask for the end of the data; the graph is the first token.
\<close>

definition parse_dot_data :: "parsing_util \<Rightarrow> string \<Rightarrow> error + graph" where
  "parse_dot_data pu data =
     (case graphparser pu data of
        Match g r \<Rightarrow> Inr g
      | NoMatch \<Rightarrow> Inl ParseException
      | Raise err \<Rightarrow> Inl err)"


section \<open>An instance of the parameters\<close>

text \<open>
  Modelled from the spec: \<open>quoted_string\<close>, \<open>all_attr\<close> and \<open>graph_attr\<close> of
  \<open>parsing_util\<close> are not among the sources. The instance below is used to run the
  parser on concrete documents: a double-quoted string in which a backslash escapes
  the next character, a bracketed label without nested brackets, and small attribute
  tables in which every value is an \<open>ID\<close>, as in the spec's \<open>ID = ID\<close>.
\<close>

fun quoted_rest :: "string \<Rightarrow> (string \<times> string) option" where
  "quoted_rest [] = None"
| "quoted_rest [c] = (if c = CHR 0x22 then Some ([], []) else None)"
| "quoted_rest (c # d # cs) =
     (if c = CHR 0x22 then Some ([], d # cs)
      else if c = CHR 0x5C then
        (case quoted_rest cs of None \<Rightarrow> None | Some (q, r) \<Rightarrow> Some (c # d # q, r))
      else
        (case quoted_rest (d # cs) of None \<Rightarrow> None | Some (q, r) \<Rightarrow> Some (c # q, r)))"

definition double_quoted :: "string element_parser" where
  "double_quoted s =
     (case s of
        [] \<Rightarrow> None
      | c # cs \<Rightarrow> if c = CHR 0x22 then quoted_rest cs else None)"

definition angle_text :: "string element_parser" where
  "angle_text s =
     (case s of
        [] \<Rightarrow> None
      | c # cs \<Rightarrow>
          if c = CHR ''<'' then
            (case dropWhile (\<lambda>x. x \<noteq> CHR ''<'' \<and> x \<noteq> CHR ''>'') cs of
               [] \<Rightarrow> None
             | d # ds \<Rightarrow>
                 if d = CHR ''>''
                 then Some (''<<'' @ takeWhile (\<lambda>x. x \<noteq> CHR ''<'' \<and> x \<noteq> CHR ''>'') cs @ ''>>'', ds)
                 else None)
          else None)"

definition basic_util :: parsing_util where
  "basic_util = \<lparr>all_attr = [], graph_attr = [],
                  quoted_string = double_quoted, html_text = angle_text\<rparr>"

definition ID_value :: "atom element_parser" where
  "ID_value s = (case ID_tok basic_util s of None \<Rightarrow> None | Some (i, r) \<Rightarrow> Some (Str i, r))"

definition example_util :: parsing_util where
  "example_util = \<lparr>all_attr = map (\<lambda>n. (n, ID_value))
                                   [''color'', ''label'', ''tailport'', ''headport''],
                    graph_attr = map (\<lambda>n. (n, ID_value)) [''label'', ''rankdir''],
                    quoted_string = double_quoted, html_text = angle_text\<rparr>"


section \<open>Notions used in the statements\<close>








text \<open>Views of a parse result, for statements about concrete documents.\<close>

definition node_names :: "contents \<Rightarrow> string list" where
  "node_names c = map ID (nodes c)"

definition node_values :: "string \<Rightarrow> contents \<Rightarrow> atom option list" where
  "node_values k c = map (\<lambda>n. node_traits n k) (nodes c)"

definition edge_ends :: "contents \<Rightarrow> (string \<times> string) list" where
  "edge_ends c = map (\<lambda>e. (ID (tail_node e), ID (head_node e))) (edges c)"

definition edge_values :: "string \<Rightarrow> contents \<Rightarrow> atom option list" where
  "edge_values k c = map (\<lambda>e. edge_traits e k) (edges c)"


definition subgraph_names :: "contents \<Rightarrow> string list" where
  "subgraph_names c = map graph_ID (subgraphs c)"

definition setting_names :: "contents \<Rightarrow> string list" where
  "setting_names c = map fst (attributes c)"

definition parsed :: "string \<Rightarrow> error + graph" where
  "parsed data = parse_dot_data example_util data"

definition raised :: "string \<Rightarrow> error option" where
  "raised data = (case parsed data of Inl err \<Rightarrow> Some err | Inr g \<Rightarrow> None)"

definition parsed_body :: "string \<Rightarrow> contents option" where
  "parsed_body data = (case parsed data of Inl err \<Rightarrow> None | Inr g \<Rightarrow> Some (body g))"


definition parsed_directed :: "string \<Rightarrow> bool option" where
  "parsed_directed data = (case parsed data of Inl err \<Rightarrow> None | Inr g \<Rightarrow> Some (directed g))"

section \<open>The edge loop\<close>














section \<open>Default attributes\<close>

text \<open>
  C1. A default-attribute statement is to set the defaults that the node statements after
  it resolve their attributes from, so that in
  \<open>digraph G { node [color=red]; a; node [color=blue]; b; }\<close> node \<open>a\<close> has
  \<open>color=red\<close> and node \<open>b\<close> has \<open>color=blue\<close>. The parser returns the two
  nodes with no \<open>color\<close> at all: \<open>_proc_node_stmt\<close> builds the node from the
  statement's own attribute list, and the dictionaries of the two \<open>node [...]\<close>
  statements end as two entries \<open>set_def_node_attr\<close> of the graph.
\<close>

theorem default_attrs_not_applied:
  "map_option node_names
     (parsed_body ''digraph G { node [color=red]; a; node [color=blue]; b; }'')
     = Some [''a'', ''b''] \<and>
   map_option (node_values ''color'')
     (parsed_body ''digraph G { node [color=red]; a; node [color=blue]; b; }'')
     = Some [None, None] \<and>
   map_option setting_names
     (parsed_body ''digraph G { node [color=red]; a; node [color=blue]; b; }'')
     = Some [''set_def_node_attr'', ''set_def_node_attr'']"
  by code_simp

section \<open>Edge statements\<close>

text \<open>
  C2. An edge statement with \<open>N\<close> endpoints is to yield \<open>N - 1\<close> edges, chained left
  to right, all sharing the trailing attribute list. The edges of
  \<open>digraph G { a:nw -> b -> c; }\<close> are \<open>(a, b)\<close> and \<open>(b, c)\<close>, but the second
  one carries \<open>tailport = :nw\<close>, the inline port of endpoint \<open>a\<close>, although its
  own tail \<open>b\<close> has no port and the statement has no attribute list: the loop of
  \<open>_proc_edge_stmt\<close> assigns the port to the one dictionary \<open>opts\<close> that every
  later edge is built from. With a trailing \<open>[tailport=e]\<close> the second edge loses the
  value \<open>e\<close> of the list in the same way.
\<close>

theorem edge_chain_port_leak:
  "map_option edge_ends (parsed_body ''digraph G { a:nw -> b -> c; }'')
     = Some [(''a'', ''b''), (''b'', ''c'')] \<and>
   map_option (edge_values ''tailport'') (parsed_body ''digraph G { a:nw -> b -> c; }'')
     = Some [Some (Str '':nw''), Some (Str '':nw'')] \<and>
   map_option (edge_values ''tailport'')
     (parsed_body ''digraph G { a:nw -> b -> c [tailport=e]; }'')
     = Some [Some (Str '':nw''), Some (Str '':nw'')]"
  by code_simp






section \<open>The graph header\<close>

text \<open>
  C8. A minimal document \<open>(strict?) (graph|digraph) [ID] { }\<close> is to parse to an empty
  graph. Without the identifier, as in \<open>digraph { }\<close>, the grammar matches, for the
  identifier is \<open>Optional(ID)\<close>, and \<open>_proc_main_graph\<close> then raises \<open>KeyError\<close>
  at \<open>tokens["ID"]\<close>; with the identifier the graph is as the claim says.
\<close>

theorem minimal_graph_without_ID:
  "raised ''digraph { }'' = Some (KeyError ''ID'') \<and>
   raised ''strict graph { }'' = Some (KeyError ''ID'') \<and>
   raised ''digraph G { }'' = None \<and>
   parsed_directed ''digraph G { }'' = Some True \<and>
   parsed_directed ''strict graph G { }'' = Some False"
  by code_simp


section \<open>The constructor of an edge\<close>




section \<open>Subgraphs and clusters\<close>




section \<open>What the grammar rejects\<close>

lemma longest_all_None: "(\<And>r. r \<in> set rs \<Longrightarrow> r = None) \<Longrightarrow> longest rs = None"
  by (induction rs rule: longest.induct) auto

lemma Or_all_None: "(\<And>p. p \<in> set ps \<Longrightarrow> p s = None) \<Longrightarrow> Or ps s = None"
  unfolding Or_def by (rule longest_all_None) auto







lemma upper_Cons:
  "upper (c # cs) =
     (case map_of (zip lower_chars upper_chars) c of Some u \<Rightarrow> u | None \<Rightarrow> c) # upper cs"
  by (simp add: upper_def)

lemma upper_char_brace:
  assumes "(case map_of (zip lower_chars upper_chars) c of Some u \<Rightarrow> u | None \<Rightarrow> c) = CHR ''{''"
  shows "c = CHR ''{''"
proof (cases "map_of (zip lower_chars upper_chars) c")
  case None
  with assms show ?thesis by simp
next
  case (Some u)
  then have "u \<in> set upper_chars"
    by (meson map_of_SomeD set_zip_rightD)
  moreover from Some assms have "u = CHR ''{''" by simp
  ultimately show ?thesis by (simp add: upper_chars_def)
qed

lemma CaselessLiteral_brace:
  assumes "preParse s = CHR ''{'' # t" and "m \<noteq> []" and "hd m \<noteq> CHR ''{''"
  shows "CaselessLiteral m s = None"
proof -
  from assms(2) obtain c cs where m: "m = c # cs" by (cases m) auto
  have "upper (take (length m) (CHR ''{'' # t)) \<noteq> upper m"
  proof
    assume "upper (take (length m) (CHR ''{'' # t)) = upper m"
    then have "(case map_of (zip lower_chars upper_chars) (CHR ''{'') of
                  Some u \<Rightarrow> u | None \<Rightarrow> CHR ''{'')
        = (case map_of (zip lower_chars upper_chars) c of Some u \<Rightarrow> u | None \<Rightarrow> c)"
      unfolding m by (simp add: upper_Cons)
    moreover have "map_of (zip lower_chars upper_chars) (CHR ''{'') = None"
      by (simp add: lower_chars_def upper_chars_def)
    ultimately have "c = CHR ''{''" using upper_char_brace[of c] by simp
    with assms(3) m show False by simp
  qed
  with assms(1) show ?thesis by (simp add: CaselessLiteral_def)
qed

lemma ID_tok_brace:
  assumes "preParse s = CHR ''{'' # t"
    and "html_text pu (CHR ''{'' # t) = None" and "quoted_string pu (CHR ''{'' # t) = None"
  shows "ID_tok pu s = None"
proof -
  have "identifier_at (CHR ''{'' # t) = None"
    by (simp add: identifier_at_def identifier_char_def lower_chars_def upper_chars_def)
  moreover have "alphastring_at (CHR ''{'' # t) = None"
    by (simp add: alphastring_at_def noncomma_def)
  ultimately show ?thesis using assms by (simp add: ID_tok_def ID_at_def)
qed

text \<open>
  C5, as the claim has it: a brace block without the keyword \<open>subgraph\<close> is accepted
  as a statement. The document \<open>digraph G { { a; } }\<close> is rejected; with the keyword and
  no identifier, \<open>digraph G { subgraph { a; } }\<close> yields one subgraph whose identifier
  is the empty string.
\<close>

theorem anonymous_block_rejected:
  "raised ''digraph G { { a; } }'' = Some ParseException \<and>
   raised ''digraph G { subgraph { a; } }'' = None \<and>
   map_option subgraph_names (parsed_body ''digraph G { subgraph { a; } }'')
     = Some [[]]"
  by code_simp

text \<open>
  C5, amended. A brace block is a subgraph statement only after the keyword
  \<open>subgraph\<close>, of which the identifier alone may be left out: where the next character
  of the input that is neither white space nor comment is an opening brace, no statement
  and no statement list matches. The tokens \<open>html_text\<close> and \<open>quoted_string\<close> do not
  start with a brace, and no attribute name does.
\<close>

theorem brace_block_is_no_stmt:
  assumes "preParse s = CHR ''{'' # t"
    and "html_text pu (CHR ''{'' # t) = None"
    and "quoted_string pu (CHR ''{'' # t) = None"
    and "\<forall>a \<in> set (graph_attr pu). fst a \<noteq> [] \<and> hd (fst a) \<noteq> CHR ''{''"
  shows "stmt pu s = NoMatch \<and> stmt_list pu s = NoMatch"
proof -
  have kw: "CaselessLiteral m s = None" if "m \<noteq> []" "hd m \<noteq> CHR ''{''" for m
    using assms(1) that by (rule CaselessLiteral_brace)
  have nid: "node_id pu s = None"
    using ID_tok_brace[OF assms(1-3)] by (simp add: node_id_def)
  have "p s = None" if "p \<in> set (map assignment_item (graph_attr pu))" for p
  proof -
    from that obtain a where a: "a \<in> set (graph_attr pu)" "p = assignment_item a" by auto
    with assms(4) have "CaselessLiteral (fst a) s = None" by (intro kw) auto
    with a show ?thesis by (simp add: assignment_item_def)
  qed
  then have 1: "assignment pu s = None"
    unfolding assignment_def by (rule Or_all_None)
  have 2: "edge_stmt pu s = NoMatch" using nid by (simp add: edge_stmt_def)
  have 3: "attr_stmt pu s = None"
    by (simp add: attr_stmt_def attr_keyword_def kw)
  have sh: "subgraph_head pu s = None" by (simp add: subgraph_head_def kw)
  have 4: "subgraph pu s = NoMatch" by (subst subgraph.simps) (simp add: sh)
  have 5: "node_stmt pu s = None" using nid by (simp add: node_stmt_def)
  have st: "stmt pu s = NoMatch"
    by (subst stmt.simps) (simp only: 1 2 3 4 5 option.case result.case)
  have "stmt_list pu s = NoMatch"
    by (subst stmt_list.simps) (simp only: st result.case)
  with st show ?thesis by simp
qed

theorem brace_block_is_no_stmt_witness:
  "preParse ''  { a; } }'' = CHR ''{'' # '' a; } }'' \<and>
   html_text example_util (CHR ''{'' # '' a; } }'') = None \<and>
   quoted_string example_util (CHR ''{'' # '' a; } }'') = None \<and>
   stmt example_util ''  { a; } }'' = NoMatch \<and>
   stmt_list example_util ''  { a; } }'' = NoMatch"
proof -
  have h1: "preParse ''  { a; } }'' = CHR ''{'' # '' a; } }''" by code_simp
  have h2: "html_text example_util (CHR ''{'' # '' a; } }'') = None" by code_simp
  have h3: "quoted_string example_util (CHR ''{'' # '' a; } }'') = None" by code_simp
  have h4: "\<forall>a \<in> set (graph_attr example_util). fst a \<noteq> [] \<and> hd (fst a) \<noteq> CHR ''{''"
    by code_simp
  from brace_block_is_no_stmt[OF h1 h2 h3 h4] h1 h2 h3 show ?thesis
    by (elim conjE, intro conjI)
qed

section \<open>Failure of a parse\<close>




end
